theory Spec2Isabelle
  imports Complex_Main
begin

section \<open>Class lists\<close>

text \<open>
  An element's \<open>classList\<close> is an ordered set of tokens. \<open>classList.add(t)\<close> appends
  \<open>t\<close> unless it is already present; \<open>classList.remove(t)\<close> takes \<open>t\<close> out.
\<close>

definition tokenAdd :: "string \<Rightarrow> string list \<Rightarrow> string list" where
  "tokenAdd t cl = (if t \<in> set cl then cl else cl @ [t])"

definition tokenRemove :: "string \<Rightarrow> string list \<Rightarrow> string list" where
  "tokenRemove t cl = removeAll t cl"

section \<open>NavigationManager: the scroll listener of updateActiveNavigation\<close>

text \<open>
  A \<open>section[id]\<close> element as the listener reads it: its \<open>id\<close> attribute and the
  \<open>top\<close> of its bounding client rectangle (a number of pixels, fractional in general).
  A \<open>.nav-link\<close> element: its \<open>href\<close> attribute (\<open>getAttribute\<close> returns null when
  the attribute is absent) and its class list.
\<close>

record section_el =
  sec_id :: string
  sec_top :: real

record nav_link =
  href :: "string option"
  link_classList :: "string list"

text \<open>
  \<^verbatim>\<open>let current = '';
  sections.forEach(section => {
      const sectionTop = section.getBoundingClientRect().top;
      if (sectionTop <= 150) { current = section.getAttribute('id'); }
  });\<close>
\<close>

definition currentStep :: "string \<Rightarrow> section_el \<Rightarrow> string" where
  "currentStep current s = (if sec_top s \<le> 150 then sec_id s else current)"

definition findCurrent :: "section_el list \<Rightarrow> string" where
  "findCurrent sections = foldl currentStep [] sections"

text \<open>
  \<^verbatim>\<open>navLinks.forEach(link => {
      link.classList.remove('active');
      if (link.getAttribute('href') === `#${current}`) { link.classList.add('active'); }
  });\<close>
\<close>

definition updateLink :: "string \<Rightarrow> nav_link \<Rightarrow> nav_link" where
  "updateLink current link =
     (let l1 = link\<lparr>link_classList := tokenRemove ''active'' (link_classList link)\<rparr>
      in if href l1 = Some (CHR ''#'' # current)
         then l1\<lparr>link_classList := tokenAdd ''active'' (link_classList l1)\<rparr>
         else l1)"

definition updateActiveNavigation :: "section_el list \<Rightarrow> nav_link list \<Rightarrow> nav_link list" where
  "updateActiveNavigation sections navLinks = map (updateLink (findCurrent sections)) navLinks"

text \<open>The active flag of a link is the presence of the class \<open>active\<close>.\<close>

definition is_active :: "nav_link \<Rightarrow> bool" where
  "is_active link = (''active'' \<in> set (link_classList link))"

text \<open>
  The specification's reading of step 3: the key of the last section, in document order,
  whose top is at most 150, and the empty key when there is none.
\<close>

definition lastQualifying :: "section_el list \<Rightarrow> string" where
  "lastQualifying sections =
     (case rev (filter (\<lambda>s. sec_top s \<le> 150) sections) of
        [] \<Rightarrow> []
      | s # _ \<Rightarrow> sec_id s)"

section \<open>ThemeManager\<close>

text \<open>
  The manager's field \<open>currentTheme\<close>, the \<open>data-theme\<close> attribute of the document
  element and the browser's local storage (a store of strings under string keys).
\<close>

record theme_state =
  currentTheme :: string
  data_theme :: "string option"
  localStorage :: "string \<rightharpoonup> string"

text \<open>
  \<^verbatim>\<open>setTheme(theme) {
      document.documentElement.setAttribute('data-theme', theme);
      localStorage.setItem('theme', theme);
      this.currentTheme = theme;
  }\<close>
\<close>

definition setTheme :: "string \<Rightarrow> theme_state \<Rightarrow> theme_state" where
  "setTheme theme st =
     st\<lparr>data_theme := Some theme,
        localStorage := (localStorage st)(''theme'' \<mapsto> theme),
        currentTheme := theme\<rparr>"

text \<open>
  \<^verbatim>\<open>toggle() {
      const newTheme = this.currentTheme === 'light' ? 'dark' : 'light';
      this.setTheme(newTheme);
  }\<close>
\<close>

definition toggle :: "theme_state \<Rightarrow> theme_state" where
  "toggle st = setTheme (if currentTheme st = ''light'' then ''dark'' else ''light'') st"

text \<open>
  The constructor, given the attribute and the storage it finds:
  \<^verbatim>\<open>this.currentTheme = localStorage.getItem('theme') || 'light'; this.init();\<close>
  where \<open>init\<close> calls \<open>setTheme(this.currentTheme)\<close> and binds \<open>toggle\<close> to the click
  of the toggle button. \<open>getItem\<close> returns null for a missing key, and \<open>||\<close> takes its
  right operand for null and for the empty string.
\<close>

definition storedTheme :: "(string \<rightharpoonup> string) \<Rightarrow> string" where
  "storedTheme store =
     (case store ''theme'' of
        None \<Rightarrow> ''light''
      | Some t \<Rightarrow> if t = [] then ''light'' else t)"

definition newThemeManager :: "string option \<Rightarrow> (string \<rightharpoonup> string) \<Rightarrow> theme_state" where
  "newThemeManager attr store =
     setTheme (storedTheme store)
       \<lparr>currentTheme = storedTheme store, data_theme = attr, localStorage = store\<rparr>"

section \<open>SkillsAnimator and the resize listener\<close>

text \<open>
  A \<open>.skill-progress\<close> bar: the text of its \<open>data-level\<close> attribute and the text of its
  inline \<open>style.width\<close> (the empty string while no inline width is set). The script
  uses the attribute only in \<open>level + '%'\<close>; for a bar without the attribute
  \<open>getAttribute\<close> returns null and that text is \<open>null%\<close>, so such a bar is the bar
  whose \<open>data_level\<close> is the text \<open>null\<close>.
\<close>

record skill_bar =
  data_level :: string
  style_width :: string

text \<open>
  The animator: its \<open>animated\<close> flag, the bars of the page, and the callbacks that
  \<open>setTimeout\<close> holds, each as its delay in milliseconds, the index of its bar and
  the level it read when it was scheduled.
\<close>

text \<open>
  An assignment to \<open>style.width\<close> goes through the browser's style parser: a text that
  is not a width is dropped and the old value stays, and a text that is one is stored in
  its normal form. The texts the script assigns end in \<open>%\<close>. \<open>cssPercentage\<close> reads
  such a text as an unsigned decimal numeral followed by \<open>%\<close>: digits, then
  optionally a point and more digits. It gives the normal form, without leading zeros
  of the whole part or trailing zeros of the fraction, and nothing for any other text
  (\<open>abc%\<close>, \<open>-5%\<close>, \<open>null%\<close>, \<open>%\<close>). The model keeps every digit of a
  numeral; signs, exponents and surrounding white space are not read.
\<close>

definition isDigit :: "char \<Rightarrow> bool" where
  "isDigit c = (c \<in> set ''0123456789'')"

definition stripLeadingZeros :: "string \<Rightarrow> string" where
  "stripLeadingZeros ds =
     (let r = dropWhile (\<lambda>c. c = CHR ''0'') ds in if r = [] then ''0'' else r)"

definition stripTrailingZeros :: "string \<Rightarrow> string" where
  "stripTrailingZeros fs = rev (dropWhile (\<lambda>c. c = CHR ''0'') (rev fs))"

definition cssPercentage :: "string \<Rightarrow> string option" where
  "cssPercentage text =
     (if text = [] then None
      else if last text = CHR ''%''
      then (let num = butlast text;
                whole = takeWhile isDigit num;
                rest = dropWhile isDigit num
            in if rest = []
               then (if whole = [] then None else Some (stripLeadingZeros whole @ ''%''))
               else if hd rest = CHR ''.'' \<and> tl rest \<noteq> [] \<and> list_all isDigit (tl rest)
               then (let frac = stripTrailingZeros (tl rest)
                     in Some (stripLeadingZeros whole
                              @ (if frac = [] then [] else CHR ''.'' # frac) @ ''%''))
               else None)
      else None)"

definition setStyleWidth :: "string \<Rightarrow> skill_bar \<Rightarrow> skill_bar" where
  "setStyleWidth text bar =
     (case cssPercentage text of
        None \<Rightarrow> bar
      | Some w \<Rightarrow> bar\<lparr>style_width := w\<rparr>)"

record skills_state =
  animated :: bool
  skillBars :: "skill_bar list"
  timers :: "(nat \<times> nat \<times> string) list"

record rect =
  r_top :: real
  r_left :: real
  r_bottom :: real
  r_right :: real

text \<open>
  \<^verbatim>\<open>rect.top >= 0 && rect.left >= 0 &&
  rect.bottom <= (window.innerHeight || document.documentElement.clientHeight) &&
  rect.right <= (window.innerWidth || document.documentElement.clientWidth)\<close>
\<close>

definition isElementInViewport :: "real \<Rightarrow> real \<Rightarrow> real \<Rightarrow> real \<Rightarrow> rect \<Rightarrow> bool" where
  "isElementInViewport innerHeight clientHeight innerWidth clientWidth r =
     (r_top r \<ge> 0 \<and> r_left r \<ge> 0 \<and>
      r_bottom r \<le> (if innerHeight \<noteq> 0 then innerHeight else clientHeight) \<and>
      r_right r \<le> (if innerWidth \<noteq> 0 then innerWidth else clientWidth))"

text \<open>
  \<^verbatim>\<open>skillBars.forEach((bar, index) => {
      const level = bar.getAttribute('data-level');
      setTimeout(() => { bar.style.width = level + '%'; }, index * 100);
  });\<close>
  \<open>animateSkillBars\<close> schedules one callback per bar, the bar at index \<open>i\<close> after
  \<open>i * 100\<close> milliseconds, with the level read now.
\<close>

definition animateSkillBars :: "skill_bar list \<Rightarrow> (nat \<times> nat \<times> string) list" where
  "animateSkillBars bars =
     map (\<lambda>index. (index * 100, index, data_level (bars ! index))) [0..<length bars]"

text \<open>
  The scroll listener of \<open>bindScrollAnimation\<close>; \<open>inView\<close> is the value of
  \<^verbatim>\<open>skillsSection && this.isElementInViewport(skillsSection)\<close>.
\<close>

definition skillsScroll :: "bool \<Rightarrow> skills_state \<Rightarrow> skills_state" where
  "skillsScroll inView st =
     (if \<not> animated st
      then (if inView
            then st\<lparr>timers := timers st @ animateSkillBars (skillBars st), animated := True\<rparr>
            else st)
      else st)"

text \<open>
  A scheduled callback runs, \<^verbatim>\<open>bar.style.width = level + '%'\<close>, and is gone.
\<close>

definition timerFires :: "nat \<times> nat \<times> string \<Rightarrow> skills_state \<Rightarrow> skills_state" where
  "timerFires t st =
     (case t of (delay, index, level) \<Rightarrow>
        if index < length (skillBars st)
        then st\<lparr>skillBars := (skillBars st)[index :=
                   setStyleWidth (level @ ''%'') (skillBars st ! index)],
                timers := remove1 t (timers st)\<rparr>
        else st)"

text \<open>
  The function that the resize listener debounces:
  \<^verbatim>\<open>skillBars.forEach(bar => {
      const level = bar.getAttribute('data-level');
      if (bar.style.width !== '0%') { bar.style.width = level + '%'; }
  });\<close>
\<close>

definition resizeBar :: "skill_bar \<Rightarrow> skill_bar" where
  "resizeBar bar =
     (let level = data_level bar
      in if style_width bar \<noteq> ''0%'' then setStyleWidth (level @ ''%'') bar else bar)"

definition resizeHandler :: "skills_state \<Rightarrow> skills_state" where
  "resizeHandler st = st\<lparr>skillBars := map resizeBar (skillBars st)\<rparr>"

section \<open>ContactFormManager\<close>

text \<open>
  The page is taken to hold the elements the manager looks up: the form, the submit
  button with its \<open>.btn-text\<close> and \<open>.btn-loading\<close> labels, and the toast with its
  \<open>.toast-message\<close> and \<open>.toast-icon\<close> children.
  The form as \<open>FormData\<close> reads it (the value of each named control) together with the
  default values that \<open>reset()\<close> restores; the submit button with the inline
  \<open>display\<close> of its two labels; the toast with the text of its message and icon and
  its class list. The three messages of the source and its two icons are constants:
  \<open>MsgCompleteFields\<close> is 'Por favor, completa todos los campos.', \<open>MsgSent\<close> the
  message of a sent form, \<open>MsgSendError\<close> the message of a failed one; \<open>IconCheck\<close>
  is the check mark and \<open>IconCross\<close> the cross.
\<close>

datatype toast_text = MsgCompleteFields | MsgSent | MsgSendError

datatype toast_glyph = IconCheck | IconCross

record contact_form =
  form_values :: "string \<rightharpoonup> string"
  form_defaults :: "string \<rightharpoonup> string"

record submit_btn =
  btnText_display :: string
  btnLoading_display :: string
  disabled :: bool

record toast_el =
  toast_message :: "toast_text option"
  toast_icon :: "toast_glyph option"
  toast_classList :: "string list"

record contact_page =
  form :: contact_form
  submitBtn :: submit_btn
  toast :: toast_el

record form_fields =
  f_name :: "string option"
  f_email :: "string option"
  f_message :: "string option"

text \<open>The promise of \<open>submitForm\<close> settles one of two ways.\<close>

datatype outcome = Resolved | Rejected

text \<open>\<open>!v\<close> for the value of \<open>formData.get\<close>: null or the empty string.\<close>

definition falsy :: "string option \<Rightarrow> bool" where
  "falsy v = (case v of None \<Rightarrow> True | Some s \<Rightarrow> s = [])"

text \<open>
  \<^verbatim>\<open>showToast(message, type = 'success') {
      toastMessage.textContent = message;
      toastIcon.textContent = type === 'success' ? (check) : (cross);
      this.toast.classList.add('show');
      setTimeout(() => { this.toast.classList.remove('show'); }, 5000);
  }\<close>
  The timeout is a later event; \<open>hideToast\<close> is its callback.
\<close>

definition showToast :: "toast_text \<Rightarrow> string \<Rightarrow> contact_page \<Rightarrow> contact_page" where
  "showToast message type st =
     st\<lparr>toast := (toast st)\<lparr>toast_message := Some message,
                              toast_icon := Some (if type = ''success'' then IconCheck else IconCross),
                              toast_classList := tokenAdd ''show'' (toast_classList (toast st))\<rparr>\<rparr>"

definition hideToast :: "contact_page \<Rightarrow> contact_page" where
  "hideToast st =
     st\<lparr>toast := (toast st)\<lparr>toast_classList := tokenRemove ''show'' (toast_classList (toast st))\<rparr>\<rparr>"

text \<open>
  \<^verbatim>\<open>setLoadingState(loading) {
      if (loading) { btnText.style.display = 'none'; btnLoading.style.display = 'inline';
                     this.submitBtn.disabled = true; }
      else { btnText.style.display = 'inline'; btnLoading.style.display = 'none';
             this.submitBtn.disabled = false; }
  }\<close>
\<close>

definition setLoadingState :: "bool \<Rightarrow> contact_page \<Rightarrow> contact_page" where
  "setLoadingState loading st =
     (if loading
      then st\<lparr>submitBtn := (submitBtn st)\<lparr>btnText_display := ''none'',
                                          btnLoading_display := ''inline'',
                                          disabled := True\<rparr>\<rparr>
      else st\<lparr>submitBtn := (submitBtn st)\<lparr>btnText_display := ''inline'',
                                          btnLoading_display := ''none'',
                                          disabled := False\<rparr>\<rparr>)"

text \<open>\<open>this.form.reset()\<close>: every control returns to its default value.\<close>

definition formReset :: "contact_page \<Rightarrow> contact_page" where
  "formReset st = st\<lparr>form := (form st)\<lparr>form_values := form_defaults (form st)\<rparr>\<rparr>"

text \<open>
  \<^verbatim>\<open>async submitForm(data) {
      return new Promise((resolve) => {
          setTimeout(() => { console.log('Form submitted:', data); resolve(); }, 2000);
      });
  }\<close>
\<close>

definition submitForm :: "form_fields \<Rightarrow> outcome" where
  "submitForm data = Resolved"

text \<open>
  \<open>handleFormSubmission\<close> runs in two parts, before and after its \<open>await\<close>. The
  first part reads the form, validates it, and either shows the error toast and
  returns, or enters the loading state and hands the data to the submission:
  \<^verbatim>\<open>if (!name || !email || !message) {
      this.showToast('Por favor, completa todos los campos.', 'error');
      return;
  }
  this.setLoadingState(true);\<close>
\<close>

definition readForm :: "contact_page \<Rightarrow> form_fields" where
  "readForm st =
     (let formData = form_values (form st)
      in \<lparr>f_name = formData ''name'', f_email = formData ''email'',
          f_message = formData ''message''\<rparr>)"

definition handleFormSubmission_begin :: "contact_page \<Rightarrow> contact_page \<times> form_fields option" where
  "handleFormSubmission_begin st =
     (let data = readForm st
      in if falsy (f_name data) \<or> falsy (f_email data) \<or> falsy (f_message data)
         then (showToast MsgCompleteFields ''error'' st, None)
         else (setLoadingState True st, Some data))"

text \<open>
  The second part runs when the promise has settled, on the page as it is then:
  \<^verbatim>\<open>try { await this.submitForm({ name, email, message });
        this.showToast((sent), 'success'); this.form.reset();
  } catch (error) { this.showToast((send error), 'error');
  } finally { this.setLoadingState(false); }\<close>
\<close>

definition handleFormSubmission_settle :: "outcome \<Rightarrow> contact_page \<Rightarrow> contact_page" where
  "handleFormSubmission_settle result st =
     setLoadingState False
       (case result of
          Resolved \<Rightarrow> formReset (showToast MsgSent ''success'' st)
        | Rejected \<Rightarrow> showToast MsgSendError ''error'' st)"

text \<open>
  A whole submission with nothing else happening in between, for a given submission
  step: the page at each point where the handler gives control back, in order.
\<close>

definition handleFormSubmission_with ::
  "(form_fields \<Rightarrow> outcome) \<Rightarrow> contact_page \<Rightarrow> contact_page list" where
  "handleFormSubmission_with submit st =
     (case handleFormSubmission_begin st of
        (s1, None) \<Rightarrow> [s1]
      | (s1, Some data) \<Rightarrow> [s1, handleFormSubmission_settle (submit data) s1])"

definition handleFormSubmission :: "contact_page \<Rightarrow> contact_page list" where
  "handleFormSubmission st = handleFormSubmission_with submitForm st"

text \<open>The loading state of the button and its normal state, as \<open>setLoadingState\<close> writes them.\<close>

definition isLoading :: "contact_page \<Rightarrow> bool" where
  "isLoading st =
     (btnText_display (submitBtn st) = ''none'' \<and> btnLoading_display (submitBtn st) = ''inline''
      \<and> disabled (submitBtn st))"

definition isIdle :: "contact_page \<Rightarrow> bool" where
  "isIdle st =
     (btnText_display (submitBtn st) = ''inline'' \<and> btnLoading_display (submitBtn st) = ''none''
      \<and> \<not> disabled (submitBtn st))"

section \<open>AnimationObserver\<close>

text \<open>
  The inline style of an element that the observer prepares: \<open>opacity\<close> and
  \<open>transform\<close> as their text, \<open>transition\<close> by its four parts. The source writes
  the transition as the text \<^verbatim>\<open>`all 0.6s ease ${index * 0.1}s`\<close>; the model keeps the
  numbers, in seconds: the duration is the decimal 0.6 of the text, and the delay is
  the number that \<open>index * 0.1\<close> computes and the template prints.

  That product is a product of double-precision numbers. The literal \<open>0.1\<close> is the
  double \<open>3602879701896397 / 2^55\<close>; an index of \<open>forEach\<close> is a natural number
  below \<open>2^32\<close> and so a double itself; and the product is their exact product
  rounded to 53 significant bits, a tie going to the even neighbour. \<open>bitlen\<close> is
  the number of bits of a natural number, \<open>roundBits p\<close> rounds one to \<open>p\<close>
  significant bits, and \<open>timesTenth index\<close> is the double \<open>index * 0.1\<close>. At index
  3 it is the double that prints as 0.30000000000000004.
\<close>

fun bitlen :: "nat \<Rightarrow> nat" where
  "bitlen n = (if n = 0 then 0 else Suc (bitlen (n div 2)))"

declare bitlen.simps [simp del]

definition roundBits :: "nat \<Rightarrow> nat \<Rightarrow> nat" where
  "roundBits p n =
     (if bitlen n \<le> p then n
      else (let s = bitlen n - p; q = n div 2 ^ s; r = n mod 2 ^ s
            in (if 2 ^ (s - 1) < r \<or> (r = 2 ^ (s - 1) \<and> odd q) then q + 1 else q) * 2 ^ s))"

definition timesTenth :: "nat \<Rightarrow> real" where
  "timesTenth index = real (roundBits 53 (index * 3602879701896397)) / 2 ^ 55"

record css_transition =
  tr_property :: string
  tr_duration :: real
  tr_timing :: string
  tr_delay :: real

record reveal_el =
  opacity :: string
  transform :: string
  transition :: "css_transition option"
  el_classList :: "string list"

text \<open>
  Elements are named by numbers; \<open>elems\<close> gives each its present state and
  \<open>observed\<close> is the set of targets the intersection observer watches.
\<close>

record anim_state =
  elems :: "nat \<Rightarrow> reveal_el"
  observed :: "nat set"

record entry =
  target :: nat
  isIntersecting :: bool

text \<open>
  The observer's callback:
  \<^verbatim>\<open>entries.forEach(entry => {
      if (entry.isIntersecting) {
          entry.target.classList.add('animate-in');
          this.observer.unobserve(entry.target);
      }
  });\<close>
\<close>

definition entryStep :: "anim_state \<Rightarrow> entry \<Rightarrow> anim_state" where
  "entryStep st e =
     (if isIntersecting e
      then st\<lparr>elems := (elems st)(target e :=
                 (elems st (target e))\<lparr>el_classList :=
                    tokenAdd ''animate-in'' (el_classList (elems st (target e)))\<rparr>),
              observed := observed st - {target e}\<rparr>
      else st)"

definition observerCallback :: "anim_state \<Rightarrow> entry list \<Rightarrow> anim_state" where
  "observerCallback st entries = foldl entryStep st entries"

text \<open>
  \<^verbatim>\<open>animatedElements.forEach((el, index) => {
      el.style.opacity = '0';
      el.style.transform = 'translateY(50px)';
      el.style.transition = `all 0.6s ease ${index * 0.1}s`;
      this.observer.observe(el);
  });\<close>
\<close>

definition prepareElement :: "nat \<Rightarrow> nat \<Rightarrow> anim_state \<Rightarrow> anim_state" where
  "prepareElement index el st =
     st\<lparr>elems := (elems st)(el :=
            (elems st el)\<lparr>opacity := ''0'',
                          transform := ''translateY(50px)'',
                          transition := Some \<lparr>tr_property = ''all'', tr_duration = 0.6,
                                               tr_timing = ''ease'',
                                               tr_delay = timesTenth index\<rparr>\<rparr>),
        observed := insert el (observed st)\<rparr>"

fun observeFrom :: "nat \<Rightarrow> nat list \<Rightarrow> anim_state \<Rightarrow> anim_state" where
  "observeFrom index [] st = st"
| "observeFrom index (el # els) st = observeFrom (Suc index) els (prepareElement index el st)"

definition observeElements :: "nat list \<Rightarrow> anim_state \<Rightarrow> anim_state" where
  "observeElements animatedElements st = observeFrom 0 animatedElements st"

text \<open>An element is revealed when it carries the class \<open>animate-in\<close>.\<close>

definition is_visible :: "anim_state \<Rightarrow> nat \<Rightarrow> bool" where
  "is_visible st el = (''animate-in'' \<in> set (el_classList (elems st el)))"

text \<open>
  The style that \<open>observeElements\<close> gives the element at index \<open>index\<close>.
\<close>

definition preparedStyle :: "nat \<Rightarrow> reveal_el \<Rightarrow> bool" where
  "preparedStyle index e =
     (opacity e = ''0'' \<and> transform e = ''translateY(50px)''
      \<and> transition e = Some \<lparr>tr_property = ''all'', tr_duration = 0.6, tr_timing = ''ease'',
                               tr_delay = timesTenth index\<rparr>)"

text \<open>
  The number of times an element goes from not revealed to revealed while the callback
  works through a run of entries, one entry at a time.
\<close>

fun transitions :: "nat \<Rightarrow> anim_state \<Rightarrow> entry list \<Rightarrow> nat" where
  "transitions el st [] = 0"
| "transitions el st (e # es) =
     (if \<not> is_visible st el \<and> is_visible (entryStep st e) el then 1 else 0)
       + transitions el (entryStep st e) es"

section \<open>Sample pages\<close>

text \<open>
  A contact page whose name and e-mail fields are filled in, with the given text in its
  message field, every default value empty, the button and the toast untouched; and a
  page of reveal-eligible elements that nothing has styled or observed yet.
\<close>

definition samplePage :: "string \<Rightarrow> contact_page" where
  "samplePage msg =
     \<lparr>form = \<lparr>form_values = [''name'' \<mapsto> ''Ana'', ''email'' \<mapsto> ''ana@example.org'',
                               ''message'' \<mapsto> msg],
               form_defaults = [''name'' \<mapsto> [], ''email'' \<mapsto> [], ''message'' \<mapsto> []]\<rparr>,
      submitBtn = \<lparr>btnText_display = [], btnLoading_display = [], disabled = False\<rparr>,
      toast = \<lparr>toast_message = None, toast_icon = None, toast_classList = [''toast'']\<rparr>\<rparr>"

definition freshPage :: anim_state where
  "freshPage = \<lparr>elems = (\<lambda>_. \<lparr>opacity = [], transform = [], transition = None,
                           el_classList = [''project-card'']\<rparr>), observed = {}\<rparr>"

section \<open>Facts about class lists\<close>

lemma tokenRemove_absent: "t \<notin> set (tokenRemove t cl)"
  by (simp add: tokenRemove_def)

lemma tokenAdd_present: "t \<in> set (tokenAdd t cl)"
  by (simp add: tokenAdd_def)

lemma tokenAdd_idem: "t \<in> set cl \<Longrightarrow> tokenAdd t cl = cl"
  by (simp add: tokenAdd_def)

lemma tokenRemove_idem: "tokenRemove t (tokenRemove t cl) = tokenRemove t cl"
  by (simp add: tokenRemove_def)

lemma tokenRemove_tokenAdd:
  "tokenRemove t (tokenAdd t (tokenRemove t cl)) = tokenRemove t cl"
  by (simp add: tokenRemove_def tokenAdd_def)

section \<open>The current key\<close>

lemma foldl_currentStep_append:
  "foldl currentStep c (xs @ [s]) = (if sec_top s \<le> 150 then sec_id s else foldl currentStep c xs)"
  by (simp add: currentStep_def)

lemma lastQualifying_snoc:
  "lastQualifying (xs @ [s]) = (if sec_top s \<le> 150 then sec_id s else lastQualifying xs)"
  by (simp add: lastQualifying_def)

text \<open>
  Claim C1. After one run of the scroll listener, \<open>current\<close> is the key of the last
  section in document order whose top offset is at most 150, and the empty string when
  no section qualifies: the last match wins, not the first.
\<close>

theorem findCurrent_last_match: "findCurrent sections = lastQualifying sections"
proof (induction sections rule: rev_induct)
  case Nil
  show ?case by (simp add: findCurrent_def lastQualifying_def)
next
  case (snoc s xs)
  have "findCurrent (xs @ [s]) = (if sec_top s \<le> 150 then sec_id s else findCurrent xs)"
    unfolding findCurrent_def by (rule foldl_currentStep_append)
  with snoc show ?case by (simp add: lastQualifying_snoc)
qed

text \<open>
  The sections of the specification's example, tops 200, 100, 50 and -10 in document
  order: the listener settles on the fourth key.
\<close>

theorem findCurrent_last_match_witness:
  "findCurrent [\<lparr>sec_id = ''home'', sec_top = 200\<rparr>, \<lparr>sec_id = ''about'', sec_top = 100\<rparr>,
                \<lparr>sec_id = ''skills'', sec_top = 50\<rparr>, \<lparr>sec_id = ''contact'', sec_top = -10\<rparr>]
     = ''contact''"
  using findCurrent_last_match [of "[\<lparr>sec_id = ''home'', sec_top = 200\<rparr>,
      \<lparr>sec_id = ''about'', sec_top = 100\<rparr>, \<lparr>sec_id = ''skills'', sec_top = 50\<rparr>,
      \<lparr>sec_id = ''contact'', sec_top = -10\<rparr>]"]
  by (simp add: lastQualifying_def)

section \<open>The active link\<close>

lemma is_active_updateLink:
  "is_active (updateLink current link) = (href link = Some (CHR ''#'' # current))"
  by (simp add: is_active_def updateLink_def Let_def tokenAdd_present tokenRemove_absent)

lemma updateLink_idem: "updateLink current (updateLink current link) = updateLink current link"
  by (simp add: updateLink_def Let_def tokenRemove_tokenAdd tokenRemove_idem)

lemma filter_href_distinct:
  "distinct (filter (\<lambda>h. h \<noteq> None) (map href links)) \<Longrightarrow>
     length (filter (\<lambda>l. href l = Some k) links) \<le> 1"
proof (induction links)
  case Nil
  show ?case by simp
next
  case (Cons l links)
  show ?case
  proof (cases "href l = Some k")
    case True
    with Cons.prems have "Some k \<notin> set (map href links)" by simp
    then have "filter (\<lambda>l. href l = Some k) links = []"
      by (force simp: filter_empty_conv image_iff)
    with True show ?thesis by simp
  next
    case False
    from Cons.prems have "distinct (filter (\<lambda>h. h \<noteq> None) (map href links))"
      by (simp split: if_splits)
    with False Cons.IH show ?thesis by simp
  qed
qed

lemma active_links:
  "filter is_active (map (updateLink c) links) = map (updateLink c) (filter (\<lambda>l. href l = Some (CHR ''#'' # c)) links)"
  by (simp add: filter_map comp_def is_active_updateLink)

text \<open>
  Claim C2, as the listener implements it. After one run a link carries the active flag
  exactly when its \<open>href\<close> is \<open>#\<close> followed by \<open>current\<close>. So at most one link is
  active when no two links share an \<open>href\<close>, and no link is active when no link's
  \<open>href\<close> is \<open>#\<close> followed by \<open>current\<close>.
\<close>

theorem updateActiveNavigation_active:
  "map is_active (updateActiveNavigation sections navLinks)
     = map (\<lambda>l. href l = Some (CHR ''#'' # findCurrent sections)) navLinks
   \<and> (distinct (filter (\<lambda>h. h \<noteq> None) (map href navLinks)) \<longrightarrow>
        length (filter is_active (updateActiveNavigation sections navLinks)) \<le> 1)
   \<and> ((\<forall>l \<in> set navLinks. href l \<noteq> Some (CHR ''#'' # findCurrent sections)) \<longrightarrow>
        filter is_active (updateActiveNavigation sections navLinks) = [])"
proof (intro conjI impI)
  show "map is_active (updateActiveNavigation sections navLinks)
     = map (\<lambda>l. href l = Some (CHR ''#'' # findCurrent sections)) navLinks"
    by (simp add: updateActiveNavigation_def is_active_updateLink)
next
  assume "distinct (filter (\<lambda>h. h \<noteq> None) (map href navLinks))"
  then show "length (filter is_active (updateActiveNavigation sections navLinks)) \<le> 1"
    using filter_href_distinct [of navLinks "CHR ''#'' # findCurrent sections"]
    by (simp add: updateActiveNavigation_def active_links)
next
  assume "\<forall>l \<in> set navLinks. href l \<noteq> Some (CHR ''#'' # findCurrent sections)"
  then show "filter is_active (updateActiveNavigation sections navLinks) = []"
    by (simp add: updateActiveNavigation_def active_links filter_empty_conv)
qed

theorem updateActiveNavigation_active_witness:
  "map is_active (updateActiveNavigation [\<lparr>sec_id = ''about'', sec_top = 0\<rparr>]
      [\<lparr>href = Some ''#home'', link_classList = [''nav-link'', ''active'']\<rparr>,
       \<lparr>href = Some ''#about'', link_classList = [''nav-link'']\<rparr>,
       \<lparr>href = None, link_classList = [''nav-link'']\<rparr>]) = [False, True, False]
   \<and> length (filter is_active (updateActiveNavigation [\<lparr>sec_id = ''about'', sec_top = 0\<rparr>]
      [\<lparr>href = Some ''#home'', link_classList = [''nav-link'', ''active'']\<rparr>,
       \<lparr>href = Some ''#about'', link_classList = [''nav-link'']\<rparr>,
       \<lparr>href = None, link_classList = [''nav-link'']\<rparr>])) \<le> 1
   \<and> filter is_active (updateActiveNavigation [\<lparr>sec_id = ''about'', sec_top = 200\<rparr>]
      [\<lparr>href = Some ''#home'', link_classList = [''nav-link'', ''active'']\<rparr>,
       \<lparr>href = Some ''#about'', link_classList = [''nav-link'']\<rparr>,
       \<lparr>href = None, link_classList = [''nav-link'']\<rparr>]) = []"
  using updateActiveNavigation_active [of "[\<lparr>sec_id = ''about'', sec_top = 0\<rparr>]"
      "[\<lparr>href = Some ''#home'', link_classList = [''nav-link'', ''active'']\<rparr>,
        \<lparr>href = Some ''#about'', link_classList = [''nav-link'']\<rparr>,
        \<lparr>href = None, link_classList = [''nav-link'']\<rparr>]"]
    updateActiveNavigation_active [of "[\<lparr>sec_id = ''about'', sec_top = 200\<rparr>]"
      "[\<lparr>href = Some ''#home'', link_classList = [''nav-link'', ''active'']\<rparr>,
        \<lparr>href = Some ''#about'', link_classList = [''nav-link'']\<rparr>,
        \<lparr>href = None, link_classList = [''nav-link'']\<rparr>]"]
  by (simp add: findCurrent_def currentStep_def)

text \<open>
  Claim C2 as stated fails on two pages. With no section at or above the threshold
  \<open>current\<close> is empty, and a link whose \<open>href\<close> is \<open>#\<close> is made active. And two
  links with the same \<open>href\<close> are made active together.
\<close>

theorem updateActiveNavigation_counterexample:
  "findCurrent [] = []
   \<and> map is_active (updateActiveNavigation []
        [\<lparr>href = Some ''#'', link_classList = [''nav-link'']\<rparr>]) = [True]
   \<and> map is_active (updateActiveNavigation [\<lparr>sec_id = ''about'', sec_top = 0\<rparr>]
        [\<lparr>href = Some ''#about'', link_classList = [''nav-link'']\<rparr>,
         \<lparr>href = Some ''#about'', link_classList = [''nav-link'', ''footer-link'']\<rparr>])
       = [True, True]"
  by (simp add: updateActiveNavigation_def findCurrent_def currentStep_def updateLink_def
      Let_def is_active_def tokenAdd_def tokenRemove_def)

section \<open>Idempotence of the scroll listener\<close>

text \<open>
  Claim C7. With the sections and their offsets unchanged, running the listener again on
  its own result changes nothing, however often it runs: every link keeps the class list
  the first run gave it.
\<close>

theorem updateActiveNavigation_idempotent:
  "updateActiveNavigation sections (updateActiveNavigation sections navLinks)
     = updateActiveNavigation sections navLinks
   \<and> (updateActiveNavigation sections ^^ Suc n) navLinks
     = updateActiveNavigation sections navLinks"
proof -
  have once: "updateActiveNavigation sections (updateActiveNavigation sections ls)
     = updateActiveNavigation sections ls" for ls
    by (simp add: updateActiveNavigation_def updateLink_idem)
  have "(updateActiveNavigation sections ^^ Suc n) navLinks
     = updateActiveNavigation sections navLinks"
  proof (induction n)
    case 0
    show ?case by simp
  next
    case (Suc n)
    have "(updateActiveNavigation sections ^^ Suc (Suc n)) navLinks
       = updateActiveNavigation sections ((updateActiveNavigation sections ^^ Suc n) navLinks)"
      by simp
    also have "\<dots> = updateActiveNavigation sections (updateActiveNavigation sections navLinks)"
      by (simp only: Suc.IH)
    also have "\<dots> = updateActiveNavigation sections navLinks" by (rule once)
    finally show ?case .
  qed
  with once show ?thesis by simp
qed

theorem updateActiveNavigation_idempotent_witness:
  "(updateActiveNavigation [\<lparr>sec_id = ''about'', sec_top = 0\<rparr>] ^^ 3)
      [\<lparr>href = Some ''#about'', link_classList = [''active'', ''nav-link'']\<rparr>,
       \<lparr>href = Some ''#home'', link_classList = [''nav-link'', ''active'']\<rparr>]
   = [\<lparr>href = Some ''#about'', link_classList = [''nav-link'', ''active'']\<rparr>,
      \<lparr>href = Some ''#home'', link_classList = [''nav-link'']\<rparr>]"
  using updateActiveNavigation_idempotent [of "[\<lparr>sec_id = ''about'', sec_top = 0\<rparr>]"
      "[\<lparr>href = Some ''#about'', link_classList = [''active'', ''nav-link'']\<rparr>,
        \<lparr>href = Some ''#home'', link_classList = [''nav-link'', ''active'']\<rparr>]" 2]
  by (simp add: numeral_3_eq_3 updateActiveNavigation_def findCurrent_def currentStep_def
      updateLink_def Let_def tokenAdd_def tokenRemove_def)

section \<open>The theme\<close>

lemma storedTheme_cases:
  "store ''theme'' \<in> {None, Some [], Some ''light'', Some ''dark''} \<Longrightarrow>
     storedTheme store \<in> {''light'', ''dark''}"
  by (auto simp: storedTheme_def)

text \<open>
  Claim C8, as the manager implements it. The current theme after construction is the
  string stored under the key \<open>theme\<close>, or \<open>light\<close> when nothing or the empty string
  is stored; it is \<open>light\<close> or \<open>dark\<close> when the stored value was absent, empty,
  \<open>light\<close> or \<open>dark\<close>, and always after a toggle. \<open>setTheme\<close> makes its argument the
  current theme, stores it under the key \<open>theme\<close> and writes it to the \<open>data-theme\<close>
  attribute. A toggle turns \<open>light\<close> into \<open>dark\<close> and every other value into
  \<open>light\<close>, so two toggles restore a theme that is \<open>light\<close> or \<open>dark\<close>.
\<close>

theorem themeManager_contract:
  "currentTheme (newThemeManager attr store) = storedTheme store
   \<and> (store ''theme'' \<in> {None, Some [], Some ''light'', Some ''dark''} \<longrightarrow>
        currentTheme (newThemeManager attr store) \<in> {''light'', ''dark''})
   \<and> currentTheme (setTheme theme st) = theme
   \<and> localStorage (setTheme theme st) = (localStorage st)(''theme'' \<mapsto> theme)
   \<and> data_theme (setTheme theme st) = Some theme
   \<and> currentTheme (toggle st) = (if currentTheme st = ''light'' then ''dark'' else ''light'')
   \<and> currentTheme (toggle st) \<in> {''light'', ''dark''}
   \<and> (currentTheme st \<in> {''light'', ''dark''} \<longrightarrow>
        currentTheme (toggle (toggle st)) = currentTheme st)"
proof -
  have new: "currentTheme (newThemeManager attr store) = storedTheme store"
    by (simp add: newThemeManager_def setTheme_def)
  have tog: "currentTheme (toggle st) = (if currentTheme st = ''light'' then ''dark'' else ''light'')"
    for st
    by (simp add: toggle_def setTheme_def)
  have twice: "currentTheme st \<in> {''light'', ''dark''} \<longrightarrow>
        currentTheme (toggle (toggle st)) = currentTheme st"
    by (auto simp: tog)
  show ?thesis
    using new tog [of st] twice storedTheme_cases [of store]
    by (simp add: setTheme_def)
qed

theorem themeManager_contract_witness:
  "currentTheme (newThemeManager None (Map.empty(''theme'' \<mapsto> ''dark''))) = ''dark''
   \<and> currentTheme (toggle (toggle (newThemeManager None (Map.empty(''theme'' \<mapsto> ''dark''))))) = ''dark''
   \<and> currentTheme (newThemeManager None Map.empty) = ''light''"
  using themeManager_contract [of None "Map.empty(''theme'' \<mapsto> ''dark'')" "''dark''"
      "newThemeManager None (Map.empty(''theme'' \<mapsto> ''dark''))"]
    themeManager_contract [of None "Map.empty" "''dark''" "newThemeManager None Map.empty"]
  by (simp add: storedTheme_def)

text \<open>
  Claim C8 as stated fails when the storage holds another string under the key: the
  manager takes it as the current theme and applies it, and two toggles then lead to
  \<open>dark\<close>, not back to it.
\<close>

theorem themeManager_counterexample:
  "currentTheme (newThemeManager None (Map.empty(''theme'' \<mapsto> ''blue''))) = ''blue''
   \<and> data_theme (newThemeManager None (Map.empty(''theme'' \<mapsto> ''blue''))) = Some ''blue''
   \<and> currentTheme (toggle (newThemeManager None (Map.empty(''theme'' \<mapsto> ''blue'')))) = ''light''
   \<and> currentTheme (toggle (toggle (newThemeManager None (Map.empty(''theme'' \<mapsto> ''blue''))))) = ''dark''"
  by (simp add: newThemeManager_def storedTheme_def setTheme_def toggle_def)

section \<open>The contact form\<close>

lemma begin_invalid:
  "falsy (form_values (form st) ''name'') \<or> falsy (form_values (form st) ''email'')
     \<or> falsy (form_values (form st) ''message'') \<Longrightarrow>
   handleFormSubmission_begin st = (showToast MsgCompleteFields ''error'' st, None)"
  by (simp add: handleFormSubmission_begin_def readForm_def Let_def)

lemma begin_valid:
  "\<not> falsy (form_values (form st) ''name'') \<Longrightarrow> \<not> falsy (form_values (form st) ''email'')
     \<Longrightarrow> \<not> falsy (form_values (form st) ''message'') \<Longrightarrow>
   handleFormSubmission_begin st = (setLoadingState True st, Some (readForm st))"
  by (simp add: handleFormSubmission_begin_def readForm_def Let_def)

lemma with_invalid:
  "falsy (form_values (form st) ''name'') \<or> falsy (form_values (form st) ''email'')
     \<or> falsy (form_values (form st) ''message'') \<Longrightarrow>
   handleFormSubmission_with submit st = [showToast MsgCompleteFields ''error'' st]"
  by (simp add: handleFormSubmission_with_def begin_invalid)

lemma with_valid:
  "\<not> falsy (form_values (form st) ''name'') \<Longrightarrow> \<not> falsy (form_values (form st) ''email'')
     \<Longrightarrow> \<not> falsy (form_values (form st) ''message'') \<Longrightarrow>
   handleFormSubmission_with submit st =
     [setLoadingState True st,
      handleFormSubmission_settle (submit (readForm st)) (setLoadingState True st)]"
  by (simp add: handleFormSubmission_with_def begin_valid)

lemma showToast_frame:
  "form (showToast m t st) = form st" "submitBtn (showToast m t st) = submitBtn st"
  by (simp_all add: showToast_def)

lemma showToast_toast:
  "toast_message (toast (showToast m t st)) = Some m"
  "toast_icon (toast (showToast m t st)) = Some (if t = ''success'' then IconCheck else IconCross)"
  "''show'' \<in> set (toast_classList (toast (showToast m t st)))"
  by (simp_all add: showToast_def tokenAdd_present)

lemma setLoadingState_frame:
  "form (setLoadingState b st) = form st" "toast (setLoadingState b st) = toast st"
  by (simp_all add: setLoadingState_def)

lemma setLoadingState_button:
  "isLoading (setLoadingState True st)" "isIdle (setLoadingState False st)"
  by (simp_all add: setLoadingState_def isLoading_def isIdle_def)

lemma formReset_frame:
  "toast (formReset st) = toast st" "submitBtn (formReset st) = submitBtn st"
  "form_values (form (formReset st)) = form_defaults (form st)"
  "form_defaults (form (formReset st)) = form_defaults (form st)"
  by (simp_all add: formReset_def)

lemma settle_resolved:
  "toast_message (toast (handleFormSubmission_settle Resolved st)) = Some MsgSent"
  "toast_icon (toast (handleFormSubmission_settle Resolved st)) = Some IconCheck"
  "''show'' \<in> set (toast_classList (toast (handleFormSubmission_settle Resolved st)))"
  "form_values (form (handleFormSubmission_settle Resolved st)) = form_defaults (form st)"
  by (simp_all add: handleFormSubmission_settle_def setLoadingState_frame formReset_frame
      showToast_frame showToast_toast)

lemma settle_rejected:
  "toast_message (toast (handleFormSubmission_settle Rejected st)) = Some MsgSendError"
  "toast_icon (toast (handleFormSubmission_settle Rejected st)) = Some IconCross"
  "''show'' \<in> set (toast_classList (toast (handleFormSubmission_settle Rejected st)))"
  "form (handleFormSubmission_settle Rejected st) = form st"
  by (simp_all add: handleFormSubmission_settle_def setLoadingState_frame
      showToast_frame showToast_toast)

lemma settle_idle: "isIdle (handleFormSubmission_settle result st)"
  by (simp add: handleFormSubmission_settle_def setLoadingState_button)

text \<open>
  Claim C4. When the name, the e-mail or the message is empty, the handler shows the
  error toast and returns: the button is as it was, so the loading state is not
  entered, and the form is as it was. When all three are filled in, the handler first
  enters the loading state, leaving form and toast alone; when the submission has
  settled it shows the success toast and resets the form if the submission resolved,
  and shows the error toast and leaves the form as it was if the submission rejected.
\<close>

theorem handleFormSubmission_paths:
  "(falsy (form_values (form st) ''name'') \<or> falsy (form_values (form st) ''email'')
      \<or> falsy (form_values (form st) ''message'') \<longrightarrow>
      (\<exists>s1. handleFormSubmission_with submit st = [s1]
         \<and> toast_message (toast s1) = Some MsgCompleteFields
         \<and> toast_icon (toast s1) = Some IconCross
         \<and> ''show'' \<in> set (toast_classList (toast s1))
         \<and> submitBtn s1 = submitBtn st
         \<and> form s1 = form st))
   \<and> (\<not> (falsy (form_values (form st) ''name'') \<or> falsy (form_values (form st) ''email'')
      \<or> falsy (form_values (form st) ''message'')) \<longrightarrow>
      (\<exists>s1 s2. handleFormSubmission_with submit st = [s1, s2]
         \<and> isLoading s1 \<and> form s1 = form st \<and> toast s1 = toast st
         \<and> (submit (readForm st) = Resolved \<longrightarrow>
               toast_message (toast s2) = Some MsgSent
             \<and> toast_icon (toast s2) = Some IconCheck
             \<and> ''show'' \<in> set (toast_classList (toast s2))
             \<and> form_values (form s2) = form_defaults (form st))
         \<and> (submit (readForm st) = Rejected \<longrightarrow>
               toast_message (toast s2) = Some MsgSendError
             \<and> toast_icon (toast s2) = Some IconCross
             \<and> ''show'' \<in> set (toast_classList (toast s2))
             \<and> form s2 = form st)))"
proof (intro conjI impI)
  assume "falsy (form_values (form st) ''name'') \<or> falsy (form_values (form st) ''email'')
      \<or> falsy (form_values (form st) ''message'')"
  then have "handleFormSubmission_with submit st = [showToast MsgCompleteFields ''error'' st]"
    by (rule with_invalid)
  then show "\<exists>s1. handleFormSubmission_with submit st = [s1]
         \<and> toast_message (toast s1) = Some MsgCompleteFields
         \<and> toast_icon (toast s1) = Some IconCross
         \<and> ''show'' \<in> set (toast_classList (toast s1))
         \<and> submitBtn s1 = submitBtn st
         \<and> form s1 = form st"
    by (simp add: showToast_frame showToast_toast)
next
  assume "\<not> (falsy (form_values (form st) ''name'') \<or> falsy (form_values (form st) ''email'')
      \<or> falsy (form_values (form st) ''message''))"
  then have tr: "handleFormSubmission_with submit st =
     [setLoadingState True st,
      handleFormSubmission_settle (submit (readForm st)) (setLoadingState True st)]"
    by (simp add: with_valid)
  show "\<exists>s1 s2. handleFormSubmission_with submit st = [s1, s2]
         \<and> isLoading s1 \<and> form s1 = form st \<and> toast s1 = toast st
         \<and> (submit (readForm st) = Resolved \<longrightarrow>
               toast_message (toast s2) = Some MsgSent
             \<and> toast_icon (toast s2) = Some IconCheck
             \<and> ''show'' \<in> set (toast_classList (toast s2))
             \<and> form_values (form s2) = form_defaults (form st))
         \<and> (submit (readForm st) = Rejected \<longrightarrow>
               toast_message (toast s2) = Some MsgSendError
             \<and> toast_icon (toast s2) = Some IconCross
             \<and> ''show'' \<in> set (toast_classList (toast s2))
             \<and> form s2 = form st)"
    unfolding tr
    by (auto simp: setLoadingState_button setLoadingState_frame settle_resolved settle_rejected)
qed


theorem handleFormSubmission_paths_witness:
  "(\<exists>s1. handleFormSubmission_with submitForm (samplePage []) = [s1]
       \<and> toast_message (toast s1) = Some MsgCompleteFields
       \<and> toast_icon (toast s1) = Some IconCross
       \<and> ''show'' \<in> set (toast_classList (toast s1))
       \<and> submitBtn s1 = submitBtn (samplePage [])
       \<and> form s1 = form (samplePage []))
   \<and> (\<exists>s1 s2. handleFormSubmission_with submitForm (samplePage ''Hola'') = [s1, s2]
       \<and> isLoading s1
       \<and> toast_message (toast s2) = Some MsgSent
       \<and> form_values (form s2) = form_defaults (form (samplePage ''Hola'')))
   \<and> (\<exists>s1 s2. handleFormSubmission_with (\<lambda>data. Rejected) (samplePage ''Hola'') = [s1, s2]
       \<and> isLoading s1
       \<and> toast_message (toast s2) = Some MsgSendError
       \<and> form s2 = form (samplePage ''Hola''))"
proof (intro conjI)
  have "falsy (form_values (form (samplePage [])) ''message'')"
    by (simp add: samplePage_def falsy_def)
  with handleFormSubmission_paths [of "samplePage []" submitForm]
  show "\<exists>s1. handleFormSubmission_with submitForm (samplePage []) = [s1]
       \<and> toast_message (toast s1) = Some MsgCompleteFields
       \<and> toast_icon (toast s1) = Some IconCross
       \<and> ''show'' \<in> set (toast_classList (toast s1))
       \<and> submitBtn s1 = submitBtn (samplePage [])
       \<and> form s1 = form (samplePage [])"
    by blast
next
  have full: "\<not> (falsy (form_values (form (samplePage ''Hola'')) ''name'')
      \<or> falsy (form_values (form (samplePage ''Hola'')) ''email'')
      \<or> falsy (form_values (form (samplePage ''Hola'')) ''message''))"
    by (simp add: samplePage_def falsy_def)
  have ok: "submitForm (readForm (samplePage ''Hola'')) = Resolved"
    by (simp add: submitForm_def)
  from handleFormSubmission_paths [of "samplePage ''Hola''" submitForm] full ok
  show "\<exists>s1 s2. handleFormSubmission_with submitForm (samplePage ''Hola'') = [s1, s2]
       \<and> isLoading s1
       \<and> toast_message (toast s2) = Some MsgSent
       \<and> form_values (form s2) = form_defaults (form (samplePage ''Hola''))"
    by blast
  from handleFormSubmission_paths [of "samplePage ''Hola''" "\<lambda>data. Rejected"] full
  show "\<exists>s1 s2. handleFormSubmission_with (\<lambda>data. Rejected) (samplePage ''Hola'') = [s1, s2]
       \<and> isLoading s1
       \<and> toast_message (toast s2) = Some MsgSendError
       \<and> form s2 = form (samplePage ''Hola'')"
    by blast
qed

text \<open>
  Claim C9. The submission of the source always resolves. So a submission that passes
  validation never takes the catch branch: the handler enters the loading state, then
  shows the success toast, resets the form and leaves the loading state.
\<close>

theorem submitForm_always_resolves:
  "submitForm data = Resolved
   \<and> (\<not> (falsy (form_values (form st) ''name'') \<or> falsy (form_values (form st) ''email'')
          \<or> falsy (form_values (form st) ''message'')) \<longrightarrow>
        handleFormSubmission st =
          [setLoadingState True st,
           setLoadingState False
             (formReset (showToast MsgSent ''success'' (setLoadingState True st)))]
        \<and> toast_message (toast (last (handleFormSubmission st))) = Some MsgSent
        \<and> toast_icon (toast (last (handleFormSubmission st))) = Some IconCheck
        \<and> form_values (form (last (handleFormSubmission st))) = form_defaults (form st))"
proof (intro conjI impI)
  show "submitForm data = Resolved" by (simp add: submitForm_def)
next
  assume "\<not> (falsy (form_values (form st) ''name'') \<or> falsy (form_values (form st) ''email'')
          \<or> falsy (form_values (form st) ''message''))"
  then have tr: "handleFormSubmission st =
     [setLoadingState True st, handleFormSubmission_settle Resolved (setLoadingState True st)]"
    by (simp add: handleFormSubmission_def with_valid submitForm_def)
  then show "handleFormSubmission st =
          [setLoadingState True st,
           setLoadingState False
             (formReset (showToast MsgSent ''success'' (setLoadingState True st)))]"
    by (simp add: handleFormSubmission_settle_def)
  show "toast_message (toast (last (handleFormSubmission st))) = Some MsgSent"
    by (simp add: tr settle_resolved)
  show "toast_icon (toast (last (handleFormSubmission st))) = Some IconCheck"
    by (simp add: tr settle_resolved)
  show "form_values (form (last (handleFormSubmission st))) = form_defaults (form st)"
    by (simp add: tr settle_resolved setLoadingState_frame)
qed

theorem submitForm_always_resolves_witness:
  "toast_message (toast (last (handleFormSubmission (samplePage ''Hola'')))) = Some MsgSent
   \<and> toast_icon (toast (last (handleFormSubmission (samplePage ''Hola'')))) = Some IconCheck
   \<and> form_values (form (last (handleFormSubmission (samplePage ''Hola''))))
       = [''name'' \<mapsto> [], ''email'' \<mapsto> [], ''message'' \<mapsto> []]"
proof -
  have full: "\<not> (falsy (form_values (form (samplePage ''Hola'')) ''name'')
      \<or> falsy (form_values (form (samplePage ''Hola'')) ''email'')
      \<or> falsy (form_values (form (samplePage ''Hola'')) ''message''))"
    by (simp add: samplePage_def falsy_def)
  have dflt: "form_defaults (form (samplePage ''Hola''))
      = [''name'' \<mapsto> [], ''email'' \<mapsto> [], ''message'' \<mapsto> []]"
    by (simp add: samplePage_def)
  from submitForm_always_resolves [of "readForm (samplePage ''Hola'')" "samplePage ''Hola''"] full
  have "toast_message (toast (last (handleFormSubmission (samplePage ''Hola'')))) = Some MsgSent
   \<and> toast_icon (toast (last (handleFormSubmission (samplePage ''Hola'')))) = Some IconCheck
   \<and> form_values (form (last (handleFormSubmission (samplePage ''Hola''))))
       = form_defaults (form (samplePage ''Hola''))"
    by blast
  then show ?thesis by (simp only: dflt)
qed

text \<open>
  Claim C10. Whatever the page is when the submission settles, and whether it resolved
  or rejected, the second part of the handler leaves the button enabled, its loading
  label hidden and its text shown. So a submission that entered the loading state ends
  out of it; one that failed validation never touched the button.
\<close>

theorem loading_state_cleared:
  "isIdle (handleFormSubmission_settle result st')
   \<and> (\<not> (falsy (form_values (form st) ''name'') \<or> falsy (form_values (form st) ''email'')
          \<or> falsy (form_values (form st) ''message'')) \<longrightarrow>
        length (handleFormSubmission_with submit st) = 2
        \<and> isLoading (hd (handleFormSubmission_with submit st))
        \<and> isIdle (last (handleFormSubmission_with submit st)))
   \<and> (falsy (form_values (form st) ''name'') \<or> falsy (form_values (form st) ''email'')
          \<or> falsy (form_values (form st) ''message'') \<longrightarrow>
        length (handleFormSubmission_with submit st) = 1
        \<and> submitBtn (hd (handleFormSubmission_with submit st)) = submitBtn st)"
  by (auto simp: settle_idle with_valid with_invalid setLoadingState_button showToast_frame)

theorem loading_state_cleared_witness:
  "isIdle (last (handleFormSubmission_with (\<lambda>data. Rejected) (samplePage ''Hola'')))
   \<and> isIdle (last (handleFormSubmission_with (\<lambda>data. Resolved) (samplePage ''Hola'')))
   \<and> isLoading (hd (handleFormSubmission_with (\<lambda>data. Rejected) (samplePage ''Hola'')))
   \<and> submitBtn (hd (handleFormSubmission_with (\<lambda>data. Resolved) (samplePage [])))
       = \<lparr>btnText_display = [], btnLoading_display = [], disabled = False\<rparr>"
proof -
  have full: "\<not> (falsy (form_values (form (samplePage ''Hola'')) ''name'')
      \<or> falsy (form_values (form (samplePage ''Hola'')) ''email'')
      \<or> falsy (form_values (form (samplePage ''Hola'')) ''message''))"
    by (simp add: samplePage_def falsy_def)
  have part: "falsy (form_values (form (samplePage [])) ''message'')"
    by (simp add: samplePage_def falsy_def)
  have btn: "submitBtn (samplePage []) = \<lparr>btnText_display = [], btnLoading_display = [], disabled = False\<rparr>"
    by (simp add: samplePage_def)
  from loading_state_cleared [of Resolved "samplePage []" "samplePage ''Hola''" "\<lambda>data. Rejected"]
    loading_state_cleared [of Resolved "samplePage []" "samplePage ''Hola''" "\<lambda>data. Resolved"]
    loading_state_cleared [of Resolved "samplePage []" "samplePage []" "\<lambda>data. Resolved"]
    full part btn
  show ?thesis by simp
qed

section \<open>The resize listener and the skill bars\<close>

lemma resizeBar_zero: "style_width bar = ''0%'' \<Longrightarrow> resizeBar bar = bar"
  by (simp add: resizeBar_def)

lemma resizeBar_other:
  "style_width bar \<noteq> ''0%'' \<Longrightarrow> resizeBar bar = setStyleWidth (data_level bar @ ''%'') bar"
  by (simp add: resizeBar_def)

lemma cssPercentage_examples:
  "cssPercentage ''90%'' = Some ''90%''"
  "cssPercentage ''090%'' = Some ''90%''"
  "cssPercentage ''12.50%'' = Some ''12.5%''"
  "cssPercentage ''0%'' = Some ''0%''"
  "cssPercentage ''abc%'' = None"
  "cssPercentage ''-5%'' = None"
  "cssPercentage ''null%'' = None"
  "cssPercentage ''%'' = None"
  by (simp_all add: cssPercentage_def isDigit_def stripLeadingZeros_def stripTrailingZeros_def)


lemma reveal_by_scroll:
  "skillsScroll True
      \<lparr>animated = False, skillBars = [\<lparr>data_level = ''90'', style_width = []\<rparr>],
       timers = []\<rparr>
   = \<lparr>animated = True, skillBars = [\<lparr>data_level = ''90'', style_width = []\<rparr>],
      timers = [(0, 0, ''90'')]\<rparr>"
  "timerFires (0, 0, ''90'')
      \<lparr>animated = True, skillBars = [\<lparr>data_level = ''90'', style_width = []\<rparr>],
       timers = [(0, 0, ''90'')]\<rparr>
   = \<lparr>animated = True, skillBars = [\<lparr>data_level = ''90'', style_width = ''90%''\<rparr>],
      timers = []\<rparr>"
  by (simp_all add: skillsScroll_def timerFires_def animateSkillBars_def setStyleWidth_def
      cssPercentage_examples)

text \<open>
  Claim C6 on a page that has just loaded: one bar with level 90 and no inline width,
  the animator's flag unset and no callback scheduled, so the bar has not been
  revealed. The function the resize listener runs sets the bar to 90%, as the reveal
  would, since the bar's inline width is the empty string and not \<open>0%\<close>.
\<close>

theorem resizeHandler_unrevealed_bar:
  "resizeHandler \<lparr>animated = False,
                  skillBars = [\<lparr>data_level = ''90'', style_width = []\<rparr>],
                  timers = []\<rparr>
   = \<lparr>animated = False,
      skillBars = [\<lparr>data_level = ''90'', style_width = ''90%''\<rparr>],
      timers = []\<rparr>"
  by (simp add: resizeHandler_def resizeBar_def setStyleWidth_def cssPercentage_examples)


section \<open>Revealing elements\<close>

lemma entryStep_visible_same: "is_visible st el \<Longrightarrow> elems (entryStep st e) el = elems st el"
  by (auto simp: entryStep_def is_visible_def tokenAdd_idem)

lemma entryStep_visible: "is_visible st el \<Longrightarrow> is_visible (entryStep st e) el"
  by (simp add: is_visible_def entryStep_visible_same [unfolded is_visible_def])

lemma entryStep_observed: "observed (entryStep st e) \<subseteq> observed st"
  by (auto simp: entryStep_def)

lemma entryStep_hit:
  "isIntersecting e \<Longrightarrow> is_visible (entryStep st e) (target e) \<and> target e \<notin> observed (entryStep st e)"
  by (simp add: entryStep_def is_visible_def tokenAdd_present)

lemma callback_visible_same:
  "is_visible st el \<Longrightarrow> elems (observerCallback st entries) el = elems st el"
  unfolding observerCallback_def
proof (induction entries arbitrary: st)
  case Nil
  show ?case by simp
next
  case (Cons e es)
  from Cons.prems have "is_visible (entryStep st e) el" by (rule entryStep_visible)
  then have "elems (foldl entryStep (entryStep st e) es) el = elems (entryStep st e) el"
    by (rule Cons.IH)
  with Cons.prems show ?case by (simp add: entryStep_visible_same)
qed

lemma callback_visible: "is_visible st el \<Longrightarrow> is_visible (observerCallback st entries) el"
  by (simp add: is_visible_def callback_visible_same [unfolded is_visible_def])

lemma callback_observed: "observed (observerCallback st entries) \<subseteq> observed st"
  unfolding observerCallback_def
proof (induction entries arbitrary: st)
  case Nil
  show ?case by simp
next
  case (Cons e es)
  have "observed (foldl entryStep (entryStep st e) es) \<subseteq> observed (entryStep st e)"
    by (rule Cons.IH)
  with entryStep_observed [of st e] show ?case by auto
qed

lemma callback_append:
  "observerCallback st (es @ es') = observerCallback (observerCallback st es) es'"
  by (simp add: observerCallback_def)

lemma callback_hit:
  "e \<in> set entries \<Longrightarrow> isIntersecting e \<Longrightarrow>
     is_visible (observerCallback st entries) (target e)
     \<and> target e \<notin> observed (observerCallback st entries)"
proof -
  assume mem: "e \<in> set entries" and hit: "isIntersecting e"
  then obtain es es' where split: "entries = es @ e # es'"
    by (auto simp: in_set_conv_decomp)
  let ?mid = "entryStep (observerCallback st es) e"
  have run: "observerCallback st entries = observerCallback ?mid es'"
    by (simp add: split observerCallback_def)
  from hit have "is_visible ?mid (target e)" "target e \<notin> observed ?mid"
    by (simp_all add: entryStep_hit)
  then show ?thesis
    unfolding run using callback_visible callback_observed [of ?mid es'] by blast
qed

lemma transitions_visible: "is_visible st el \<Longrightarrow> transitions el st entries = 0"
proof (induction entries arbitrary: st)
  case Nil
  show ?case by simp
next
  case (Cons e es)
  from Cons.prems have "is_visible (entryStep st e) el" by (rule entryStep_visible)
  then have "transitions el (entryStep st e) es = 0" by (rule Cons.IH)
  with Cons.prems show ?case by simp
qed

lemma transitions_le_1: "transitions el st entries \<le> 1"
proof (induction entries arbitrary: st)
  case Nil
  show ?case by simp
next
  case (Cons e es)
  show ?case
  proof (cases "is_visible (entryStep st e) el")
    case True
    then have "transitions el (entryStep st e) es = 0" by (rule transitions_visible)
    then show ?thesis by simp
  next
    case False
    with Cons.IH [of "entryStep st e"] show ?thesis by simp
  qed
qed

lemma batches_concat:
  "foldl observerCallback st batches = observerCallback st (concat batches)"
proof (induction batches arbitrary: st)
  case Nil
  show ?case by (simp add: observerCallback_def)
next
  case (Cons b bs)
  then show ?case by (simp add: callback_append)
qed

text \<open>
  Claim C3. An entry that reports an element as intersecting leaves it revealed and no
  longer observed when the callback returns. Over any sequence of callback runs the
  observed set only shrinks; an element that is revealed stays exactly as it is, so a
  later report of it changes nothing; an element out of the observed set stays out;
  and no element goes from hidden to revealed more than once.
\<close>

theorem reveal_at_most_once:
  "(\<lparr>target = el, isIntersecting = True\<rparr> \<in> set entries \<longrightarrow>
      is_visible (observerCallback st entries) el
      \<and> el \<notin> observed (observerCallback st entries))
   \<and> observed (foldl observerCallback st batches) \<subseteq> observed st
   \<and> (is_visible st el \<longrightarrow>
        elems (foldl observerCallback st batches) el = elems st el
      \<and> is_visible (foldl observerCallback st batches) el
      \<and> transitions el st (concat batches) = 0)
   \<and> (el \<notin> observed st \<longrightarrow> el \<notin> observed (foldl observerCallback st batches))
   \<and> transitions el st (concat batches) \<le> 1"
proof (intro conjI impI)
  assume "\<lparr>target = el, isIntersecting = True\<rparr> \<in> set entries"
  from callback_hit [OF this, of st]
  show "is_visible (observerCallback st entries) el"
    and "el \<notin> observed (observerCallback st entries)" by simp_all
next
  show "observed (foldl observerCallback st batches) \<subseteq> observed st"
    by (simp add: batches_concat callback_observed)
next
  assume v: "is_visible st el"
  then show "elems (foldl observerCallback st batches) el = elems st el"
    by (simp add: batches_concat callback_visible_same)
  from v show "is_visible (foldl observerCallback st batches) el"
    by (simp add: batches_concat callback_visible)
  from v show "transitions el st (concat batches) = 0" by (rule transitions_visible)
next
  assume "el \<notin> observed st"
  with callback_observed [of st "concat batches"]
  show "el \<notin> observed (foldl observerCallback st batches)"
    by (auto simp: batches_concat)
next
  show "transitions el st (concat batches) \<le> 1" by (rule transitions_le_1)
qed

theorem reveal_at_most_once_witness:
  "is_visible (observerCallback (observeElements [7, 3, 5] freshPage)
      [\<lparr>target = 5, isIntersecting = True\<rparr>, \<lparr>target = 7, isIntersecting = False\<rparr>]) 5
   \<and> observed (observerCallback (observeElements [7, 3, 5] freshPage)
      [\<lparr>target = 5, isIntersecting = True\<rparr>, \<lparr>target = 7, isIntersecting = False\<rparr>]) = {3, 7}
   \<and> transitions 5 (observeElements [7, 3, 5] freshPage)
       (concat [[\<lparr>target = 5, isIntersecting = True\<rparr>, \<lparr>target = 7, isIntersecting = False\<rparr>],
                [\<lparr>target = 5, isIntersecting = True\<rparr>]]) = 1
   \<and> transitions 5 (observerCallback (observeElements [7, 3, 5] freshPage)
        [\<lparr>target = 5, isIntersecting = True\<rparr>, \<lparr>target = 7, isIntersecting = False\<rparr>])
       (concat [[\<lparr>target = 5, isIntersecting = True\<rparr>]]) = 0"
  using reveal_at_most_once [of 5
      "[\<lparr>target = 5, isIntersecting = True\<rparr>, \<lparr>target = 7, isIntersecting = False\<rparr>]"
      "observeElements [7, 3, 5] freshPage"
      "[[\<lparr>target = 5, isIntersecting = True\<rparr>, \<lparr>target = 7, isIntersecting = False\<rparr>],
        [\<lparr>target = 5, isIntersecting = True\<rparr>]]"]
    reveal_at_most_once [of 5 "[\<lparr>target = 5, isIntersecting = True\<rparr>]"
      "observerCallback (observeElements [7, 3, 5] freshPage)
        [\<lparr>target = 5, isIntersecting = True\<rparr>, \<lparr>target = 7, isIntersecting = False\<rparr>]"
      "[[\<lparr>target = 5, isIntersecting = True\<rparr>]]"]
  by (auto simp add: freshPage_def observeElements_def prepareElement_def observerCallback_def
      entryStep_def is_visible_def tokenAdd_def)

section \<open>The prepared style\<close>

lemma entryStep_style:
  "opacity (elems (entryStep st e) el) = opacity (elems st el)"
  "transform (elems (entryStep st e) el) = transform (elems st el)"
  "transition (elems (entryStep st e) el) = transition (elems st el)"
  by (simp_all add: entryStep_def)

lemma entryStep_prepared: "preparedStyle i (elems (entryStep st e) el) = preparedStyle i (elems st el)"
  by (simp add: preparedStyle_def entryStep_style)

lemma callback_prepared:
  "preparedStyle i (elems (observerCallback st entries) el) = preparedStyle i (elems st el)"
  unfolding observerCallback_def
  by (induction entries arbitrary: st) (simp_all add: entryStep_prepared)

lemma batches_prepared:
  "preparedStyle i (elems (foldl observerCallback st batches) el) = preparedStyle i (elems st el)"
  by (simp add: batches_concat callback_prepared)

lemma observeFrom_other:
  "el \<notin> set els \<Longrightarrow> elems (observeFrom k els st) el = elems st el"
  by (induction els arbitrary: k st) (auto simp: prepareElement_def)

lemma observeFrom_observed:
  "observed (observeFrom k els st) = set els \<union> observed st"
  by (induction els arbitrary: k st) (auto simp: prepareElement_def)

lemma prepareElement_prepared: "preparedStyle k (elems (prepareElement k el st) el)"
  by (simp add: prepareElement_def preparedStyle_def)

lemma observeFrom_prepared:
  "distinct els \<Longrightarrow> i < length els \<Longrightarrow>
     preparedStyle (k + i) (elems (observeFrom k els st) (els ! i))"
proof (induction els arbitrary: k st i)
  case Nil
  then show ?case by simp
next
  case (Cons el els)
  show ?case
  proof (cases i)
    case 0
    from Cons.prems have "el \<notin> set els" by simp
    then have "elems (observeFrom (Suc k) els (prepareElement k el st)) el
        = elems (prepareElement k el st) el"
      by (rule observeFrom_other)
    with 0 show ?thesis by (simp add: prepareElement_prepared)
  next
    case (Suc j)
    with Cons.prems have "distinct els" "j < length els" by simp_all
    from Cons.IH [OF this, of "Suc k" "prepareElement k el st"] Suc
    show ?thesis by simp
  qed
qed

subsection \<open>The double-precision product\<close>

lemma bitlen_lower: "n \<noteq> 0 \<Longrightarrow> 2 ^ (bitlen n - 1) \<le> n"
proof (induction n rule: bitlen.induct)
  case (1 n)
  show ?case
  proof (cases "n div 2 = 0")
    case True
    with "1.prems" have "n = 1" by (cases n) auto
    then show ?thesis by (simp add: bitlen.simps [of "Suc 0"] bitlen.simps [of 0])
  next
    case False
    with "1.IH" "1.prems" have ih: "2 ^ (bitlen (n div 2) - 1) \<le> n div 2" by simp
    from False have pos: "bitlen (n div 2) \<noteq> 0" by (simp add: bitlen.simps [of "n div 2"])
    have "bitlen n = Suc (bitlen (n div 2))" using "1.prems" by (simp add: bitlen.simps [of n])
    then have "(2::nat) ^ (bitlen n - 1) = 2 * 2 ^ (bitlen (n div 2) - 1)"
      using pos by (cases "bitlen (n div 2)") simp_all
    also have "\<dots> \<le> 2 * (n div 2)" using ih by simp
    also have "\<dots> \<le> n" by simp
    finally show ?thesis .
  qed
qed

lemma roundBits_error:
  "\<bar>real (roundBits p n) - real n\<bar> * 2 ^ p \<le> real n"
proof (cases "bitlen n \<le> p")
  case True
  then show ?thesis by (simp add: roundBits_def)
next
  case False
  define s where "s = bitlen n - p"
  define q where "q = n div 2 ^ s"
  define r where "r = n mod 2 ^ s"
  from False have s: "0 < s" and len: "bitlen n = s + p" by (simp_all add: s_def)
  have n: "n = q * 2 ^ s + r" unfolding q_def r_def by (rule div_mult_mod_eq [symmetric])
  have r: "r < 2 ^ s" by (simp add: r_def)
  have rn: "real n = real q * 2 ^ s + real r"
  proof -
    have "real n = real (q * 2 ^ s + r)" using n by simp
    then show ?thesis by simp
  qed
  from s have half: "(2::nat) ^ s = 2 * 2 ^ (s - 1)" by (cases s) simp_all
  have "n \<noteq> 0"
  proof
    assume "n = 0"
    then have "bitlen n = 0" by (simp add: bitlen.simps [of 0])
    with False show False by simp
  qed
  then have "2 ^ (bitlen n - 1) \<le> n" by (rule bitlen_lower)
  with len s have low: "2 ^ (s - 1) * 2 ^ p \<le> n"
    by (cases s) (simp_all add: power_add)
  have val: "roundBits p n
      = (if 2 ^ (s - 1) < r \<or> (r = 2 ^ (s - 1) \<and> odd q) then q + 1 else q) * 2 ^ s"
    using False by (simp add: roundBits_def Let_def s_def q_def r_def)
  have err: "\<bar>real (roundBits p n) - real n\<bar> \<le> 2 ^ (s - 1)"
  proof (cases "2 ^ (s - 1) < r \<or> (r = 2 ^ (s - 1) \<and> odd q)")
    case True
    then have up: "roundBits p n = (q + 1) * 2 ^ s" by (simp add: val)
    from True have "2 ^ (s - 1) \<le> r" by auto
    then have "real (2 ^ s) - real r \<le> 2 ^ (s - 1)"
      using half by (simp add: of_nat_diff)
    moreover have "real (roundBits p n) = (real q + 1) * 2 ^ s" by (simp add: up algebra_simps)
    then have "real (roundBits p n) - real n = real (2 ^ s) - real r"
      by (simp add: rn algebra_simps)
    moreover have "real r \<le> real (2 ^ s)" using r by simp
    ultimately show ?thesis by simp
  next
    case False
    then have down: "roundBits p n = q * 2 ^ s" by (simp add: val)
    from False have "r \<le> 2 ^ (s - 1)" by auto
    then have "real r \<le> real (2 ^ (s - 1))" by (simp only: of_nat_le_iff)
    then have "real r \<le> 2 ^ (s - 1)" by simp
    moreover have "real (roundBits p n) = real q * 2 ^ s" by (simp add: down)
    then have "real (roundBits p n) - real n = - real r"
      by (simp add: rn)
    ultimately show ?thesis by simp
  qed
  have "\<bar>real (roundBits p n) - real n\<bar> * 2 ^ p \<le> 2 ^ (s - 1) * 2 ^ p"
    using err by (simp add: mult_right_mono)
  also have "\<dots> \<le> real n"
  proof -
    from low have "real (2 ^ (s - 1) * 2 ^ p) \<le> real n" by (simp only: of_nat_le_iff)
    then show ?thesis by simp
  qed
  finally show ?thesis .
qed

lemma timesTenth_close: "\<bar>timesTenth i - real i * 0.1\<bar> \<le> real i * 0.1 / 2 ^ 52"
proof -
  define x where "x = real i"
  define d where "d = real (roundBits 53 (i * 3602879701896397)) - x * 3602879701896397"
  have x: "0 \<le> x" by (simp add: x_def)
  have "\<bar>real (roundBits 53 (i * 3602879701896397)) - real (i * 3602879701896397)\<bar> * 2 ^ 53
      \<le> real (i * 3602879701896397)"
    by (rule roundBits_error)
  then have d: "\<bar>d\<bar> * 2 ^ 53 \<le> x * 3602879701896397"
    by (simp add: d_def x_def)
  have eq: "timesTenth i - real i * 0.1 = d / 2 ^ 55 + x / (5 * 2 ^ 55)"
    by (simp add: timesTenth_def d_def x_def field_simps)
  have "\<bar>d / 2 ^ 55 + x / (5 * 2 ^ 55)\<bar> \<le> \<bar>d\<bar> / 2 ^ 55 + x / (5 * 2 ^ 55)"
    using x abs_triangle_ineq [of "d / 2 ^ 55" "x / (5 * 2 ^ 55)"] by simp
  also have "\<dots> \<le> x * 3602879701896397 / 2 ^ 53 / 2 ^ 55 + x / (5 * 2 ^ 55)"
    using d by (simp add: field_simps)
  also have "\<dots> \<le> x * 0.1 / 2 ^ 52"
    using x by (simp add: field_simps)
  finally have "\<bar>d / 2 ^ 55 + x / (5 * 2 ^ 55)\<bar> \<le> x * 0.1 / 2 ^ 52" .
  then show ?thesis by (simp only: eq x_def)
qed

lemma bitlen_example: "bitlen 10808639105689191 = 54"
  by (simp add: bitlen.simps)

lemma roundBits_example: "roundBits 53 10808639105689191 = 10808639105689192"
  unfolding roundBits_def bitlen_example Let_def
  apply simp
  done

lemma timesTenth_example: "timesTenth 3 = 5404319552844596 / 2 ^ 54"
  by (simp add: timesTenth_def roundBits_example)

subsection \<open>The style of each element\<close>

text \<open>
  Claim C5. After \<open>observeElements\<close>, the element at index \<open>i\<close> of the collected
  elements is observed and has opacity 0, the transform \<open>translateY(50px)\<close> and the
  transition \<open>all\<close>, 0.6 seconds, \<open>ease\<close>, delayed by the product \<open>i * 0.1\<close> as the
  source computes it, in seconds; and it keeps these values through every later
  sequence of callback runs, whatever elements they report and in whatever order. The
  computed product is \<open>i * 0.1\<close> up to the rounding of double precision: it differs
  from the exact product by at most its \<open>2^52\<close>-th part.
\<close>

theorem observeElements_stagger:
  "distinct animatedElements \<Longrightarrow> i < length animatedElements \<Longrightarrow>
     animatedElements ! i \<in> observed (observeElements animatedElements st)
     \<and> opacity (elems (foldl observerCallback (observeElements animatedElements st) batches)
          (animatedElements ! i)) = ''0''
     \<and> transform (elems (foldl observerCallback (observeElements animatedElements st) batches)
          (animatedElements ! i)) = ''translateY(50px)''
     \<and> transition (elems (foldl observerCallback (observeElements animatedElements st) batches)
          (animatedElements ! i))
        = Some \<lparr>tr_property = ''all'', tr_duration = 0.6, tr_timing = ''ease'',
                 tr_delay = timesTenth i\<rparr>
     \<and> \<bar>timesTenth i - real i * 0.1\<bar> \<le> real i * 0.1 / 2 ^ 52"
proof -
  assume d: "distinct animatedElements" and i: "i < length animatedElements"
  let ?st = "observeElements animatedElements st"
  from observeFrom_prepared [OF d i, of 0 st]
  have "preparedStyle i (elems ?st (animatedElements ! i))"
    by (simp add: observeElements_def)
  then have "preparedStyle i (elems (foldl observerCallback ?st batches) (animatedElements ! i))"
    by (simp add: batches_prepared)
  moreover from i have "animatedElements ! i \<in> observed ?st"
    by (simp add: observeElements_def observeFrom_observed)
  ultimately show ?thesis using timesTenth_close [of i] by (simp add: preparedStyle_def)
qed

text \<open>
  Four elements, of which the last is reported first: it keeps the delay of its index
  3, the double that prints as 0.30000000000000004.
\<close>

theorem observeElements_stagger_witness:
  "9 \<in> observed (observeElements [7, 3, 5, 9] freshPage)
   \<and> opacity (elems (foldl observerCallback (observeElements [7, 3, 5, 9] freshPage)
        [[\<lparr>target = 9, isIntersecting = True\<rparr>], [\<lparr>target = 7, isIntersecting = True\<rparr>]]) 9) = ''0''
   \<and> transform (elems (foldl observerCallback (observeElements [7, 3, 5, 9] freshPage)
        [[\<lparr>target = 9, isIntersecting = True\<rparr>], [\<lparr>target = 7, isIntersecting = True\<rparr>]]) 9)
      = ''translateY(50px)''
   \<and> transition (elems (foldl observerCallback (observeElements [7, 3, 5, 9] freshPage)
        [[\<lparr>target = 9, isIntersecting = True\<rparr>], [\<lparr>target = 7, isIntersecting = True\<rparr>]]) 9)
      = Some \<lparr>tr_property = ''all'', tr_duration = 0.6, tr_timing = ''ease'',
               tr_delay = 5404319552844596 / 18014398509481984\<rparr>"
proof -
  have d: "distinct [7, 3, 5, 9 :: nat]" by simp
  have i: "3 < length [7, 3, 5, 9 :: nat]" by simp
  have t: "timesTenth 3 = 5404319552844596 / 18014398509481984"
    by (simp add: timesTenth_example)
  from observeElements_stagger [OF d i, of freshPage
      "[[\<lparr>target = 9, isIntersecting = True\<rparr>], [\<lparr>target = 7, isIntersecting = True\<rparr>]]"]
  show ?thesis by (simp add: t)
qed

end
